theory Spec2Isabelle
  imports Complex_Main "HOL-Library.AList"
begin

section \<open>The outside world of the network mapper\<close>

text \<open>
  The program talks to the network through a handful of calls: the nmap client
  (\<^verbatim>\<open>nmap.PortScanner.scan\<close>), subprocesses (\<^verbatim>\<open>ping\<close>), TCP connections
  (\<^verbatim>\<open>asyncio.open_connection\<close> under \<^verbatim>\<open>asyncio.wait_for\<close>), reverse DNS, the ARP table,
  the \<^verbatim>\<open>ipaddress\<close> library and the MAC vendor lookup. Each of them is a field of the
  record \<open>world\<close>: what the call answers, or the exception it raises. Every theorem below
  holds for every world.
\<close>

datatype py_exception =
    AttributeError
  | ValueError
  | OSError
  | TimeoutError
  | ConnectionRefusedError
  | FileNotFoundError
  | PortScannerError
  | RuntimeError

text \<open>What \<^verbatim>\<open>await asyncio.wait_for(asyncio.open_connection(ip, port), timeout=t)\<close> does.\<close>

datatype conn = Connected | Failed py_exception

text \<open>
  One host of an nmap scan result, as python-nmap exposes it: \<^verbatim>\<open>nm[host].state()\<close>,
  \<^verbatim>\<open>nm[host].all_protocols()\<close> with \<^verbatim>\<open>nm[host][proto]\<close> (a dict from port to service
  info, of which only \<^verbatim>\<open>name\<close> is read), and \<^verbatim>\<open>nm[host].get('osmatch', [])\<close> (of which
  only the names are read).
\<close>

record nmap_host =
  nm_state :: string
  nm_protocols :: "(string \<times> (int \<times> string option) list) list"
  nm_osmatch :: "string list"

type_synonym nmap_result = "(string \<times> nmap_host) list"

record world =
  nmap_scan :: "string \<Rightarrow> string \<Rightarrow> py_exception + nmap_result"
    \<comment> \<open>\<^verbatim>\<open>self.nm.scan(hosts=h, arguments=a)\<close> followed by reading \<^verbatim>\<open>self.nm\<close>\<close>
  open_connection :: "string \<Rightarrow> int \<Rightarrow> int \<Rightarrow> conn"
    \<comment> \<open>ip, port, timeout in seconds\<close>
  subprocess_exec :: "string list \<Rightarrow> py_exception + (int \<times> string)"
    \<comment> \<open>argv to (returncode, stdout)\<close>
  platform_system :: string
  gethostbyaddr :: "string \<Rightarrow> py_exception + string"
  arp_mac_addresses :: "string \<Rightarrow> string option"
    \<comment> \<open>the dict returned by \<^verbatim>\<open>_get_all_mac_addresses\<close>, which catches every exception\<close>
  ip_network_hosts :: "string \<Rightarrow> py_exception + string list"
    \<comment> \<open>\<^verbatim>\<open>[str(ip) for ip in ipaddress.ip_network(target, strict=False).hosts()]\<close>\<close>
  get_manufacturer :: "string \<Rightarrow> py_exception + string option"
    \<comment> \<open>\<^verbatim>\<open>MACLookup.get_manufacturer\<close>\<close>
  analyze_device :: "string \<Rightarrow> string list"
    \<comment> \<open>\<^verbatim>\<open>ProtocolAnalyzer.analyze_device\<close>, which catches every exception of its probes\<close>
  elapsed :: "string \<Rightarrow> real"
    \<comment> \<open>\<^verbatim>\<open>time.time() - start_time\<close> around a connection to port 80\<close>

section \<open>Strings\<close>

text \<open>\<^verbatim>\<open>str.lower()\<close> on ASCII text (host names and ping output).\<close>

definition lower_char :: "char \<Rightarrow> char" where
  "lower_char c =
     (case map_of (zip ''ABCDEFGHIJKLMNOPQRSTUVWXYZ'' ''abcdefghijklmnopqrstuvwxyz'') c of
        None \<Rightarrow> c
      | Some l \<Rightarrow> l)"

definition lower :: "string \<Rightarrow> string" where
  "lower s = map lower_char s"

text \<open>\<^verbatim>\<open>s.startswith(p)\<close> and the substring test \<^verbatim>\<open>p in s\<close>.\<close>

fun startswith :: "string \<Rightarrow> string \<Rightarrow> bool" where
  "startswith s [] = True"
| "startswith [] (p # ps) = False"
| "startswith (c # cs) (p # ps) = (c = p \<and> startswith cs ps)"

fun str_in :: "string \<Rightarrow> string \<Rightarrow> bool" where
  "str_in p [] = (p = [])"
| "str_in p (c # cs) = (startswith (c # cs) p \<or> str_in p cs)"

section \<open>Configuration (src/config.py)\<close>

record Config =
  default_ports :: "int list"
  detailed_scan_ports :: "int list"
  quick_scan_ports :: "int list"
  async_timeout :: int

definition default_config :: Config where
  "default_config =
     \<lparr> default_ports = [21, 22, 23, 25, 53, 80, 110, 143, 443, 993, 995,
                        3306, 3389, 5432, 8080, 8443],
       detailed_scan_ports = [1..1024],
       quick_scan_ports = [21, 22, 23, 25, 53, 80, 110, 143, 443, 993, 995,
                           3306, 3389, 5432, 8080, 8443],
       async_timeout = 10 \<rparr>"

section \<open>Host candidates\<close>

text \<open>
  The dict that \<^verbatim>\<open>discover_devices\<close> and \<^verbatim>\<open>_ping_discovery\<close> build for a host. Both
  build it with the same four keys, so it is a record; \<^verbatim>\<open>mac\<close> and \<^verbatim>\<open>hostname\<close> hold
  a string or \<^verbatim>\<open>None\<close>.
\<close>

record device =
  dev_ip :: string
  dev_mac :: "string option"
  dev_hostname :: "string option"
  dev_state :: string

section \<open>Device classifier (src/device_classifier.py)\<close>

record pattern =
  pat_ports :: "int list"
  pat_services :: "string list"
  pat_patterns :: "string list"
  pat_priority :: int

text \<open>\<^verbatim>\<open>_load_device_patterns\<close>: a dict literal, iterated in the order it is written.\<close>

definition device_patterns :: "(string \<times> pattern) list" where
  "device_patterns =
    [(''router'', \<lparr>pat_ports = [80, 443, 22, 23],
        pat_services = [''http'', ''https'', ''ssh'', ''telnet''],
        pat_patterns = [''router'', ''gateway'', ''cisco'', ''juniper'', ''fortinet''],
        pat_priority = 1\<rparr>),
     (''switch'', \<lparr>pat_ports = [22, 23, 80, 443],
        pat_services = [''ssh'', ''telnet'', ''http'', ''https''],
        pat_patterns = [''switch'', ''catalyst'', ''nexus''],
        pat_priority = 2\<rparr>),
     (''server'', \<lparr>pat_ports = [22, 80, 443, 3306, 5432, 27017],
        pat_services = [''ssh'', ''http'', ''https'', ''mysql'', ''postgresql'', ''mongodb''],
        pat_patterns = [''server'', ''apache'', ''nginx'', ''mysql'', ''postgresql''],
        pat_priority = 3\<rparr>),
     (''printer'', \<lparr>pat_ports = [80, 443, 631, 9100],
        pat_services = [''http'', ''https'', ''ipp'', ''printer''],
        pat_patterns = [''printer'', ''hp'', ''canon'', ''epson'', ''brother''],
        pat_priority = 4\<rparr>),
     (''camera'', \<lparr>pat_ports = [80, 443, 554, 8000],
        pat_services = [''http'', ''https'', ''rtsp''],
        pat_patterns = [''camera'', ''ipcam'', ''dvr'', ''nvr''],
        pat_priority = 5\<rparr>),
     (''iot'', \<lparr>pat_ports = [80, 443, 1883, 8883],
        pat_services = [''http'', ''https'', ''mqtt''],
        pat_patterns = [''iot'', ''smart'', ''home'', ''automation''],
        pat_priority = 6\<rparr>),
     (''mobile'', \<lparr>pat_ports = [80, 443],
        pat_services = [''http'', ''https''],
        pat_patterns = [''mobile'', ''android'', ''ios'', ''phone''],
        pat_priority = 7\<rparr>),
     (''workstation'', \<lparr>pat_ports = [22, 80, 443, 3389],
        pat_services = [''ssh'', ''http'', ''https'', ''rdp''],
        pat_patterns = [''windows'', ''linux'', ''mac'', ''desktop''],
        pat_priority = 8\<rparr>)]"

subsection \<open>Port checks\<close>

text \<open>
  \<^verbatim>\<open>check_port\<close> of \<^verbatim>\<open>_quick_port_check\<close>: the port when the connection opens within
  2 seconds, \<^verbatim>\<open>None\<close> when the attempt raises (\<^verbatim>\<open>except Exception: return None\<close>).
\<close>

definition check_port :: "world \<Rightarrow> string \<Rightarrow> int \<Rightarrow> int option" where
  "check_port w ip port =
     (case open_connection w ip port 2 of
        Connected \<Rightarrow> Some port
      | Failed e \<Rightarrow> None)"

text \<open>
  The loop over the gathered results:
  \<^verbatim>\<open>if result and isinstance(result, int): open_ports.append(result)\<close>.
  The truth value of an int is \<open>result \<noteq> 0\<close>.
\<close>

fun append_open :: "int option list \<Rightarrow> int list \<Rightarrow> int list" where
  "append_open [] open_ports = open_ports"
| "append_open (None # results) open_ports = append_open results open_ports"
| "append_open (Some result # results) open_ports =
     append_open results (if result \<noteq> 0 then open_ports @ [result] else open_ports)"

definition quick_port_check :: "world \<Rightarrow> string \<Rightarrow> int list \<Rightarrow> int list" where
  "quick_port_check w ip ports = append_open (map (check_port w ip) ports) []"

subsection \<open>Facts read from nmap\<close>

text \<open>\<^verbatim>\<open>for proto in nm[ip].all_protocols(): open_ports.extend(nm[ip][proto].keys())\<close>\<close>

definition host_ports :: "nmap_host \<Rightarrow> int list" where
  "host_ports h = concat (map (\<lambda>(proto, ports). map fst ports) (nm_protocols h))"

definition service_name :: "string option \<Rightarrow> string" where
  "service_name info = (case info of None \<Rightarrow> ''unknown'' | Some n \<Rightarrow> n)"

definition host_services :: "nmap_host \<Rightarrow> (int \<times> string) list" where
  "host_services h =
     concat (map (\<lambda>(proto, ports). map (\<lambda>(port, info). (port, service_name info)) ports)
       (nm_protocols h))"

definition get_open_ports :: "world \<Rightarrow> string \<Rightarrow> int list" where
  "get_open_ports w ip =
     (case nmap_scan w ip (''-sS -F '' @ ip) of
        Inl e \<Rightarrow>
          quick_port_check w ip
            [21, 22, 23, 25, 53, 80, 110, 143, 443, 993, 995, 3306, 3389, 5432, 8080]
      | Inr res \<Rightarrow>
          (case map_of res ip of
             None \<Rightarrow> []
           | Some h \<Rightarrow> host_ports h))"

definition get_services :: "world \<Rightarrow> string \<Rightarrow> string list" where
  "get_services w ip =
     (case nmap_scan w ip (''-sV --version-intensity 3 '' @ ip) of
        Inl e \<Rightarrow> []
      | Inr res \<Rightarrow>
          (case map_of res ip of
             None \<Rightarrow> []
           | Some h \<Rightarrow> map snd (host_services h)))"

subsection \<open>classify_device\<close>

text \<open>The three inner loops, each adding to the running score.\<close>

fun port_matching :: "int list \<Rightarrow> pattern \<Rightarrow> int \<Rightarrow> int" where
  "port_matching [] pat score = score"
| "port_matching (port # open_ports) pat score =
     port_matching open_ports pat
       (if port \<in> set (pat_ports pat) then score + 2 else score)"

fun service_matching :: "string list \<Rightarrow> pattern \<Rightarrow> int \<Rightarrow> int" where
  "service_matching [] pat score = score"
| "service_matching (service # services) pat score =
     service_matching services pat
       (if service \<in> set (pat_services pat) then score + 3 else score)"

fun hostname_matching :: "string list \<Rightarrow> string \<Rightarrow> int \<Rightarrow> int" where
  "hostname_matching [] hostname score = score"
| "hostname_matching (pattern_str # pattern_strs) hostname score =
     hostname_matching pattern_strs hostname
       (if str_in pattern_str hostname then score + 5 else score)"

text \<open>
  \<^verbatim>\<open>device.get('hostname', '').lower()\<close>: the key is always there, so \<^verbatim>\<open>get\<close> returns
  its value, and \<^verbatim>\<open>None.lower()\<close> raises \<^verbatim>\<open>AttributeError\<close>.
\<close>

definition hostname_lower :: "device \<Rightarrow> py_exception + string" where
  "hostname_lower d =
     (case dev_hostname d of
        None \<Rightarrow> Inl AttributeError
      | Some h \<Rightarrow> Inr (lower h))"

text \<open>The outer loop over \<^verbatim>\<open>self.device_patterns.items()\<close>, filling \<^verbatim>\<open>device_score\<close>.\<close>

fun score_loop ::
  "(string \<times> pattern) list \<Rightarrow> int list \<Rightarrow> string list \<Rightarrow> device \<Rightarrow>
   (string \<times> int) list \<Rightarrow> py_exception + (string \<times> int) list" where
  "score_loop [] open_ports services d device_score = Inr device_score"
| "score_loop ((device_type, pat) # rest) open_ports services d device_score =
     (let score = service_matching services pat (port_matching open_ports pat 0)
      in case hostname_lower d of
           Inl e \<Rightarrow> Inl e
         | Inr hostname \<Rightarrow>
             score_loop rest open_ports services d
               (AList.update device_type
                  (hostname_matching (pat_patterns pat) hostname score) device_score))"

text \<open>
  Python's \<^verbatim>\<open>max(items, key=lambda x: x[1])\<close>: the running best is replaced only by an
  item whose key is strictly greater.
\<close>

fun py_max_from :: "('a \<Rightarrow> int) \<Rightarrow> 'a \<Rightarrow> 'a list \<Rightarrow> 'a" where
  "py_max_from key best [] = best"
| "py_max_from key best (x # xs) =
     py_max_from key (if key x > key best then x else best) xs"

definition classify_device :: "world \<Rightarrow> device \<Rightarrow> py_exception + string" where
  "classify_device w d =
     (let ip = dev_ip d;
          open_ports = get_open_ports w ip;
          services = get_services w ip
      in case score_loop device_patterns open_ports services d [] of
           Inl e \<Rightarrow> Inl e
         | Inr device_score \<Rightarrow>
             (case device_score of
                [] \<Rightarrow> Inr ''unknown''
              | item # items \<Rightarrow>
                  (let best_match = py_max_from snd item items
                   in if snd best_match > 0 then Inr (fst best_match)
                      else Inr ''unknown'')))"

subsection \<open>quick_classify\<close>

definition quick_classify :: "world \<Rightarrow> device \<Rightarrow> py_exception + string" where
  "quick_classify w d =
     (let ip = dev_ip d;
          common_ports = [22, 23, 80, 443, 3389, 9100];
          open_ports = quick_port_check w ip common_ports
      in if 9100 \<in> set open_ports then Inr ''printer''
         else if 3389 \<in> set open_ports then Inr ''workstation''
         else if 22 \<in> set open_ports \<and> 80 \<in> set open_ports then Inr ''server''
         else if 80 \<in> set open_ports \<or> 443 \<in> set open_ports then Inr ''device''
         else Inr ''unknown'')"

subsection \<open>OS detection\<close>

text \<open>
  \<^verbatim>\<open>re.search(lit + r'(\d+)', output, re.IGNORECASE)\<close> for a literal \<open>lit\<close>: the leftmost
  place where the literal occurs, letter case ignored, followed by at least one digit;
  the result is group 1, the longest run of digits there.
\<close>

definition is_digit :: "char \<Rightarrow> bool" where
  "is_digit c = (c \<in> set ''0123456789'')"

fun re_search_digits :: "string \<Rightarrow> string \<Rightarrow> string option" where
  "re_search_digits lit [] = None"
| "re_search_digits lit (c # cs) =
     (if startswith (lower (c # cs)) (lower lit)
         \<and> takeWhile is_digit (drop (length lit) (c # cs)) \<noteq> []
      then Some (takeWhile is_digit (drop (length lit) (c # cs)))
      else re_search_digits lit cs)"

text \<open>\<^verbatim>\<open>int(s)\<close> on a run of decimal digits.\<close>

definition digit_value :: "char \<Rightarrow> int" where
  "digit_value c =
     (case map_of (zip ''0123456789'' [0, 1, 2, 3, 4, 5, 6, 7, 8, 9]) c of
        None \<Rightarrow> 0
      | Some v \<Rightarrow> v)"

definition py_int :: "string \<Rightarrow> int" where
  "py_int s = foldl (\<lambda>n c. 10 * n + digit_value c) 0 s"

definition ttl_patterns :: "string list" where
  "ttl_patterns = [''ttl='', ''TTL='', ''Time to live='']"

fun ttl_loop :: "string list \<Rightarrow> string \<Rightarrow> string option" where
  "ttl_loop [] output = None"
| "ttl_loop (pat # pats) output =
     (case re_search_digits pat output of
        None \<Rightarrow> ttl_loop pats output
      | Some group1 \<Rightarrow>
          (let ttl = py_int group1
           in if ttl \<le> 64 then Some ''Linux/macOS''
              else if ttl \<le> 128 then Some ''Windows''
              else if ttl \<le> 255 then Some ''Network Device''
              else Some ''Unknown''))"

definition ttl_ping_command :: "world \<Rightarrow> string \<Rightarrow> string list" where
  "ttl_ping_command w ip =
     (if lower (platform_system w) = ''windows''
      then [''ping'', ''-n'', ''1'', ip]
      else [''ping'', ''-c'', ''1'', ip])"

text \<open>
  \<^verbatim>\<open>_detect_os_by_ttl\<close>: everything is inside \<^verbatim>\<open>try ... except Exception: pass\<close>, so a
  failing subprocess gives \<^verbatim>\<open>None\<close>.
\<close>

definition detect_os_by_ttl :: "world \<Rightarrow> string \<Rightarrow> string option" where
  "detect_os_by_ttl w ip =
     (case subprocess_exec w (ttl_ping_command w ip) of
        Inl e \<Rightarrow> None
      | Inr (returncode, output) \<Rightarrow>
          if returncode = 0 then ttl_loop ttl_patterns output else None)"

definition detect_os :: "world \<Rightarrow> device \<Rightarrow> string option" where
  "detect_os w d =
     (let ip = dev_ip d
      in case nmap_scan w ip (''-O --osscan-guess '' @ ip) of
           Inl e \<Rightarrow> detect_os_by_ttl w ip
         | Inr res \<Rightarrow>
             (case map_of res ip of
                None \<Rightarrow> detect_os_by_ttl w ip
              | Some h \<Rightarrow>
                  (case nm_osmatch h of
                     [] \<Rightarrow> detect_os_by_ttl w ip
                   | name # others \<Rightarrow> Some name)))"

section \<open>Scanner (src/scanner.py)\<close>

subsection \<open>Host discovery\<close>

definition get_hostname :: "world \<Rightarrow> string \<Rightarrow> string option" where
  "get_hostname w ip =
     (case gethostbyaddr w ip of
        Inl e \<Rightarrow> None
      | Inr hostname \<Rightarrow> Some hostname)"

definition ping_command :: "world \<Rightarrow> string \<Rightarrow> string list" where
  "ping_command w ip =
     (if lower (platform_system w) = ''windows''
      then [''ping'', ''-n'', ''1'', ''-w'', ''1000'', ip]
      else [''ping'', ''-c'', ''1'', ''-W'', ''1'', ip])"

definition ping_host :: "world \<Rightarrow> string \<Rightarrow> device option" where
  "ping_host w ip =
     (case subprocess_exec w (ping_command w ip) of
        Inl e \<Rightarrow> None
      | Inr (returncode, output) \<Rightarrow>
          if returncode = 0
          then Some \<lparr>dev_ip = ip, dev_mac = None, dev_hostname = None, dev_state = ''up''\<rparr>
          else None)"

text \<open>\<^verbatim>\<open>if result and isinstance(result, dict): devices.append(result)\<close>\<close>

fun append_devices :: "device option list \<Rightarrow> device list \<Rightarrow> device list" where
  "append_devices [] devices = devices"
| "append_devices (None # results) devices = append_devices results devices"
| "append_devices (Some result # results) devices = append_devices results (devices @ [result])"

text \<open>
  \<^verbatim>\<open>_ping_discovery\<close>: \<^verbatim>\<open>ipaddress.ip_network\<close> is called outside any \<^verbatim>\<open>try\<close>, so its
  \<^verbatim>\<open>ValueError\<close> on a target that is no network reaches the caller.
\<close>

definition ping_discovery :: "world \<Rightarrow> string \<Rightarrow> py_exception + device list" where
  "ping_discovery w target =
     (case ip_network_hosts w target of
        Inl e \<Rightarrow> Inl e
      | Inr hosts \<Rightarrow> Inr (append_devices (map (ping_host w) hosts) []))"

text \<open>The body of the \<^verbatim>\<open>try\<close> in \<^verbatim>\<open>discover_devices\<close>.\<close>

fun up_hosts :: "world \<Rightarrow> nmap_result \<Rightarrow> device list \<Rightarrow> device list" where
  "up_hosts w [] devices = devices"
| "up_hosts w ((host, h) # hosts) devices =
     up_hosts w hosts
       (if nm_state h = ''up''
        then devices @ [\<lparr>dev_ip = host, dev_mac = arp_mac_addresses w host,
                         dev_hostname = get_hostname w host, dev_state = ''up''\<rparr>]
        else devices)"

definition nmap_discovery :: "world \<Rightarrow> string \<Rightarrow> py_exception + device list" where
  "nmap_discovery w target =
     (case nmap_scan w target (''-sn -n '' @ target) of
        Inl e \<Rightarrow> Inl e
      | Inr res \<Rightarrow> Inr (up_hosts w res []))"

definition discover_devices :: "world \<Rightarrow> string \<Rightarrow> py_exception + device list" where
  "discover_devices w target =
     (case nmap_discovery w target of
        Inl e \<Rightarrow> ping_discovery w target
      | Inr devices \<Rightarrow> Inr devices)"

subsection \<open>Port and service scans\<close>

text \<open>
  \<^verbatim>\<open>quick_port_scan\<close>: the same \<^verbatim>\<open>check_port\<close> (timeout 2) and the same loop over the
  gathered results as \<^verbatim>\<open>_quick_port_check\<close>. No statement of it is outside a handler.
\<close>

definition quick_port_scan :: "world \<Rightarrow> string \<Rightarrow> int list \<Rightarrow> py_exception + int list" where
  "quick_port_scan w ip ports = Inr (append_open (map (check_port w ip) ports) [])"

definition common_services :: "(int \<times> string) list" where
  "common_services =
     [(21, ''ftp''), (22, ''ssh''), (23, ''telnet''), (25, ''smtp''), (53, ''dns''),
      (80, ''http''), (110, ''pop3''), (143, ''imap''), (443, ''https''),
      (993, ''imaps''), (995, ''pop3s''), (3306, ''mysql''), (3389, ''rdp''),
      (5432, ''postgresql''), (8080, ''http-proxy''), (8443, ''https-alt'')]"

definition basic_check_port :: "world \<Rightarrow> Config \<Rightarrow> string \<Rightarrow> int \<Rightarrow> (int \<times> string) option" where
  "basic_check_port w cfg ip port =
     (case open_connection w ip port (async_timeout cfg) of
        Connected \<Rightarrow>
          Some (port, case map_of common_services port of None \<Rightarrow> ''unknown'' | Some s \<Rightarrow> s)
      | Failed e \<Rightarrow> None)"

text \<open>\<^verbatim>\<open>if result and isinstance(result, tuple): services[port] = service\<close>\<close>

fun store_services ::
  "(int \<times> string) option list \<Rightarrow> (int \<times> string) list \<Rightarrow> (int \<times> string) list" where
  "store_services [] services = services"
| "store_services (None # results) services = store_services results services"
| "store_services (Some (port, service) # results) services =
     store_services results (AList.update port service services)"

definition basic_port_scan :: "world \<Rightarrow> Config \<Rightarrow> string \<Rightarrow> (int \<times> string) list" where
  "basic_port_scan w cfg ip =
     store_services (map (basic_check_port w cfg ip) (map fst common_services)) []"

definition scan_services :: "world \<Rightarrow> Config \<Rightarrow> string \<Rightarrow> (int \<times> string) list" where
  "scan_services w cfg ip =
     (case nmap_scan w ip (''-sS -sV -O --version-intensity 5 -p- '' @ ip) of
        Inl e \<Rightarrow> basic_port_scan w cfg ip
      | Inr res \<Rightarrow>
          (case map_of res ip of
             None \<Rightarrow> []
           | Some h \<Rightarrow> store_services (map Some (host_services h)) []))"

text \<open>
  \<^verbatim>\<open>analyze_connections(ip).get('response_time')\<close>, the one entry of the returned dict
  that the caller reads.
\<close>

definition analyze_connections :: "world \<Rightarrow> Config \<Rightarrow> string \<Rightarrow> real option" where
  "analyze_connections w cfg ip =
     (case open_connection w ip 80 (async_timeout cfg) of
        Connected \<Rightarrow> Some (elapsed w ip)
      | Failed e \<Rightarrow> None)"

section \<open>Orchestrator (network_mapper.py)\<close>

record ScanResult =
  ip_address :: string
  mac_address :: "string option"
  hostname :: "string option"
  manufacturer :: "string option"
  device_type :: "string option"
  operating_system :: "string option"
  open_ports :: "int list"
  services :: "(int \<times> string) list"
  protocols :: "string list"
  response_time :: "real option"
  last_seen :: "real option"
  scan_mode :: string

text \<open>
  \<^verbatim>\<open>ScanResult(ip_address=device['ip'], mac_address=device.get('mac'), scan_mode=m)\<close>,
  with the defaults of the dataclass and of \<^verbatim>\<open>__post_init__\<close>.
\<close>

definition new_result :: "device \<Rightarrow> string \<Rightarrow> ScanResult" where
  "new_result d m =
     \<lparr> ip_address = dev_ip d, mac_address = dev_mac d, hostname = None,
       manufacturer = None, device_type = None, operating_system = None,
       open_ports = [], services = [], protocols = [], response_time = None,
       last_seen = None, scan_mode = m \<rparr>"

definition discovery_scan :: "world \<Rightarrow> device \<Rightarrow> py_exception + ScanResult" where
  "discovery_scan w d =
     (let result = new_result d ''discovery'';
          result =
            (case mac_address result of
               None \<Rightarrow> result
             | Some mac \<Rightarrow>
                 if mac \<noteq> [] then
                   (case get_manufacturer w mac of
                      Inl e \<Rightarrow> result
                    | Inr m \<Rightarrow> result\<lparr>manufacturer := m\<rparr>)
                 else result);
          result =
            (case quick_classify w d of
               Inl e \<Rightarrow> result\<lparr>device_type := Some ''unknown''\<rparr>
             | Inr t \<Rightarrow> result\<lparr>device_type := Some t\<rparr>);
          common_ports = [21, 22, 23, 25, 53, 80, 110, 143, 443, 993, 995, 3306, 3389, 5432, 8080];
          result =
            (case quick_port_scan w (dev_ip d) common_ports of
               Inl e \<Rightarrow> result\<lparr>open_ports := []\<rparr>
             | Inr ports \<Rightarrow> result\<lparr>open_ports := ports\<rparr>)
      in Inr result)"

text \<open>\<^verbatim>\<open>_detailed_local_scan\<close> has no handler: an exception of a step leaves the function.\<close>

definition detailed_local_scan :: "world \<Rightarrow> Config \<Rightarrow> device \<Rightarrow> py_exception + ScanResult" where
  "detailed_local_scan w cfg d =
     (let result = new_result d ''local_detailed''
      in case (case mac_address result of
                 None \<Rightarrow> Inr result
               | Some mac \<Rightarrow>
                   if mac \<noteq> [] then
                     (case get_manufacturer w mac of
                        Inl e \<Rightarrow> Inl e
                      | Inr m \<Rightarrow> Inr (result\<lparr>manufacturer := m\<rparr>))
                   else Inr result) of
           Inl e \<Rightarrow> Inl e
         | Inr result \<Rightarrow>
             (case classify_device w d of
                Inl e \<Rightarrow> Inl e
              | Inr t \<Rightarrow>
                  (let result = result\<lparr>device_type := Some t\<rparr>;
                       result = result\<lparr>operating_system := detect_os w d\<rparr>;
                       result = result\<lparr>protocols := analyze_device w (dev_ip d)\<rparr>;
                       svcs = scan_services w cfg (dev_ip d);
                       result = result\<lparr>services := svcs\<rparr>;
                       result = result\<lparr>open_ports := map fst svcs\<rparr>;
                       result = result\<lparr>response_time := analyze_connections w cfg (dev_ip d)\<rparr>
                   in Inr result)))"

text \<open>The \<^verbatim>\<open>for device in devices\<close> loop of \<^verbatim>\<open>scan_network\<close>, for either per-host scan.\<close>

fun scan_each ::
  "(device \<Rightarrow> py_exception + ScanResult) \<Rightarrow> device list \<Rightarrow> ScanResult list \<Rightarrow>
   py_exception + ScanResult list" where
  "scan_each scan [] scan_results = Inr scan_results"
| "scan_each scan (d # devices) scan_results =
     (case scan d of
        Inl e \<Rightarrow> Inl e
      | Inr result \<Rightarrow> scan_each scan devices (scan_results @ [result]))"

definition scan_network ::
  "world \<Rightarrow> Config \<Rightarrow> string \<Rightarrow> string \<Rightarrow> bool \<Rightarrow> py_exception + ScanResult list" where
  "scan_network w cfg target mode detailed =
     (case discover_devices w target of
        Inl e \<Rightarrow> Inl e
      | Inr devices \<Rightarrow>
          if mode = ''local'' \<and> detailed
          then scan_each (detailed_local_scan w cfg) devices []
          else scan_each (discovery_scan w) devices [])"

section \<open>The specification's wording\<close>




text \<open>The TTL that the first matching pattern reads from a ping output, if any.\<close>

fun parsed_ttl :: "string list \<Rightarrow> string \<Rightarrow> int option" where
  "parsed_ttl [] output = None"
| "parsed_ttl (pat # pats) output =
     (case re_search_digits pat output of
        None \<Rightarrow> parsed_ttl pats output
      | Some group1 \<Rightarrow> Some (py_int group1))"

definition spec_ttl_family :: "int \<Rightarrow> string" where
  "spec_ttl_family t =
     (if t \<le> 64 then ''Linux/macOS''
      else if t \<le> 128 then ''Windows''
      else if t \<le> 255 then ''Network Device''
      else ''Unknown'')"

text \<open>
  The ports a detailed scan can report for a host: those of the all-ports nmap service
  scan, or, when that scan raises, those of the fallback table.
\<close>

definition service_scan_ports :: "world \<Rightarrow> string \<Rightarrow> int set" where
  "service_scan_ports w ip =
     (case nmap_scan w ip (''-sS -sV -O --version-intensity 5 -p- '' @ ip) of
        Inl e \<Rightarrow> set (map fst common_services)
      | Inr res \<Rightarrow>
          (case map_of res ip of
             None \<Rightarrow> {}
           | Some h \<Rightarrow> set (host_ports h)))"

definition discovery_common_ports :: "int list" where
  "discovery_common_ports =
     [21, 22, 23, 25, 53, 80, 110, 143, 443, 993, 995, 3306, 3389, 5432, 8080]"

section \<open>Concrete worlds\<close>

text \<open>A network on which nothing answers and no tool runs.\<close>

definition silent_world :: world where
  "silent_world =
     \<lparr> nmap_scan = (\<lambda>hosts arguments. Inl PortScannerError),
       open_connection = (\<lambda>ip port timeout. Failed ConnectionRefusedError),
       subprocess_exec = (\<lambda>argv. Inl FileNotFoundError),
       platform_system = ''Linux'',
       gethostbyaddr = (\<lambda>ip. Inl OSError),
       arp_mac_addresses = (\<lambda>ip. None),
       ip_network_hosts = (\<lambda>target. Inr [target]),
       get_manufacturer = (\<lambda>mac. Inr None),
       analyze_device = (\<lambda>ip. []),
       elapsed = (\<lambda>ip. 0) \<rparr>"



text \<open>No nmap, but \<^verbatim>\<open>ping\<close> runs and every address answers it.\<close>

definition ping_world :: world where
  "ping_world =
     silent_world\<lparr>subprocess_exec :=
       (\<lambda>argv. Inr (0, ''64 bytes from 10.0.0.5: icmp_seq=1 ttl=64 time=0.31 ms''))\<rparr>"

definition windows_ping_world :: world where
  "windows_ping_world =
     silent_world\<lparr>platform_system := ''Windows'', subprocess_exec :=
       (\<lambda>argv. Inr (0, ''Reply from 10.0.0.5: bytes=32 time<1ms TTL=128''))\<rparr>"

text \<open>\<^verbatim>\<open>ping\<close> runs and no address answers it: it exits with status 1.\<close>

definition no_reply_world :: world where
  "no_reply_world =
     silent_world\<lparr>subprocess_exec := (\<lambda>argv. Inr (1, [])),
       ip_network_hosts := (\<lambda>target. Inr [''10.0.0.1'', ''10.0.0.2''])\<rparr>"

text \<open>
  nmap finds the host 10.0.0.5 in its discovery scan and fails on every other scan
  (as it does without privileges); reverse DNS names the host; its MySQL port is open.
\<close>

definition db_world :: world where
  "db_world =
     silent_world\<lparr>
       nmap_scan := (\<lambda>hosts arguments.
         if arguments = ''-sn -n 10.0.0.5''
         then Inr [(''10.0.0.5'', \<lparr>nm_state = ''up'', nm_protocols = [], nm_osmatch = []\<rparr>)]
         else Inl PortScannerError),
       gethostbyaddr := (\<lambda>ip. Inr ''db.lan''),
       open_connection :=
         (\<lambda>ip port timeout. if port = 3306 then Connected else Failed ConnectionRefusedError)\<rparr>"

text \<open>What the two per-host scans return for that host.\<close>

definition db_device :: device where
  "db_device =
     \<lparr>dev_ip = ''10.0.0.5'', dev_mac = None, dev_hostname = Some ''db.lan'', dev_state = ''up''\<rparr>"

definition db_detailed_result :: ScanResult where
  "db_detailed_result =
     \<lparr> ip_address = ''10.0.0.5'', mac_address = None, hostname = None,
       manufacturer = None, device_type = Some ''server'', operating_system = None,
       open_ports = [3306], services = [(3306, ''mysql'')], protocols = [],
       response_time = None, last_seen = None, scan_mode = ''local_detailed'' \<rparr>"

definition db_discovery_result :: ScanResult where
  "db_discovery_result =
     \<lparr> ip_address = ''10.0.0.5'', mac_address = None, hostname = None,
       manufacturer = None, device_type = Some ''unknown'', operating_system = None,
       open_ports = [3306], services = [], protocols = [],
       response_time = None, last_seen = None, scan_mode = ''discovery'' \<rparr>"

text \<open>The host that the ping sweep builds for an address that answers.\<close>

definition pinged_device :: device where
  "pinged_device =
     \<lparr>dev_ip = ''10.0.0.5'', dev_mac = None, dev_hostname = None, dev_state = ''up''\<rparr>"

section \<open>Properties\<close>

subsection \<open>Scoring and tie-break of classify_device\<close>





















subsection \<open>Port probing and quick classification\<close>

lemma append_open_filter:
  "append_open (map (check_port w ip) ports) acc =
     acc @ filter (\<lambda>port. open_connection w ip port 2 = Connected \<and> port \<noteq> 0) ports"
  by (induction ports arbitrary: acc) (auto simp: check_port_def split: conn.splits)

lemma quick_port_check_filter:
  "quick_port_check w ip ports =
     filter (\<lambda>port. open_connection w ip port 2 = Connected \<and> port \<noteq> 0) ports"
  by (simp add: quick_port_check_def append_open_filter)







subsection \<open>OS family from the TTL\<close>

lemma ttl_loop_parsed:
  "ttl_loop pats output = map_option spec_ttl_family (parsed_ttl pats output)"
  by (induction pats) (auto simp: spec_ttl_family_def Let_def split: option.splits)

text \<open>
  Claim C6. When the ping exits with status 0 and its output yields the TTL value \<open>t\<close>,
  the TTL fallback returns \<^verbatim>\<open>'Linux/macOS'\<close> if \<open>t \<le> 64\<close>, \<^verbatim>\<open>'Windows'\<close> if
  \<open>64 < t \<le> 128\<close>, \<^verbatim>\<open>'Network Device'\<close> if \<open>128 < t \<le> 255\<close> and \<^verbatim>\<open>'Unknown'\<close> if
  \<open>t > 255\<close>.
\<close>

theorem detect_os_by_ttl_families:
  assumes "subprocess_exec w (ttl_ping_command w ip) = Inr (0, output)"
    and "parsed_ttl ttl_patterns output = Some t"
  shows "detect_os_by_ttl w ip =
           Some (if t \<le> 64 then ''Linux/macOS''
                 else if t \<le> 128 then ''Windows''
                 else if t \<le> 255 then ''Network Device''
                 else ''Unknown'')"
  using assms by (simp add: detect_os_by_ttl_def ttl_loop_parsed spec_ttl_family_def)

text \<open>TTL 64 in a Linux ping output, TTL 128 in a Windows one.\<close>

theorem detect_os_by_ttl_families_witness:
  "detect_os_by_ttl ping_world ''10.0.0.5'' = Some ''Linux/macOS''
   \<and> detect_os_by_ttl windows_ping_world ''10.0.0.5'' = Some ''Windows''"
proof -
  have l: "subprocess_exec ping_world (ttl_ping_command ping_world ''10.0.0.5'')
      = Inr (0, ''64 bytes from 10.0.0.5: icmp_seq=1 ttl=64 time=0.31 ms'')"
    by (simp add: ping_world_def silent_world_def)
  have pl: "parsed_ttl ttl_patterns ''64 bytes from 10.0.0.5: icmp_seq=1 ttl=64 time=0.31 ms''
      = Some 64"
    by code_simp
  have w: "subprocess_exec windows_ping_world (ttl_ping_command windows_ping_world ''10.0.0.5'')
      = Inr (0, ''Reply from 10.0.0.5: bytes=32 time<1ms TTL=128'')"
    by (simp add: windows_ping_world_def silent_world_def)
  have pw: "parsed_ttl ttl_patterns ''Reply from 10.0.0.5: bytes=32 time<1ms TTL=128''
      = Some 128"
    by code_simp
  show ?thesis
    using detect_os_by_ttl_families [OF l pl] detect_os_by_ttl_families [OF w pw]
    by simp
qed

subsection \<open>Host discovery\<close>

lemma append_devices_none:
  "\<forall>r\<in>set results. r = None \<Longrightarrow> append_devices results devices = devices"
  by (induction results arbitrary: devices) auto

text \<open>
  Claim C7. When the nmap discovery scan raises, \<^verbatim>\<open>discover_devices\<close> returns what the
  ping sweep \<^verbatim>\<open>_ping_discovery\<close> returns, and the exception of the scan is not
  propagated. When moreover the target is a network and no address of it answers the ping
  with exit status 0, \<^verbatim>\<open>discover_devices\<close> returns the empty list.
\<close>

theorem discover_devices_fallback:
  assumes "nmap_scan w target (''-sn -n '' @ target) = Inl e"
  shows "discover_devices w target = ping_discovery w target
     \<and> (\<forall>hosts. ip_network_hosts w target = Inr hosts
            \<and> (\<forall>ip\<in>set hosts. \<forall>output. subprocess_exec w (ping_command w ip) \<noteq> Inr (0, output))
          \<longrightarrow> discover_devices w target = Inr [])"
proof (intro conjI allI impI)
  show fb: "discover_devices w target = ping_discovery w target"
    using assms by (simp add: discover_devices_def nmap_discovery_def)
  fix hosts
  assume a: "ip_network_hosts w target = Inr hosts
     \<and> (\<forall>ip\<in>set hosts. \<forall>output. subprocess_exec w (ping_command w ip) \<noteq> Inr (0, output))"
  have "ping_host w ip = None" if "ip \<in> set hosts" for ip
    using a that by (auto simp: ping_host_def split: sum.splits)
  then have "\<forall>r\<in>set (map (ping_host w) hosts). r = None" by auto
  then have "append_devices (map (ping_host w) hosts) [] = []"
    by (rule append_devices_none)
  then show "discover_devices w target = Inr []"
    using a by (simp add: fb ping_discovery_def)
qed

theorem discover_devices_fallback_witness:
  "discover_devices ping_world ''10.0.0.5'' = Inr [pinged_device]
   \<and> discover_devices no_reply_world ''10.0.0.0/30'' = Inr []"
proof -
  have n1: "nmap_scan ping_world ''10.0.0.5'' (''-sn -n '' @ ''10.0.0.5'') = Inl PortScannerError"
    by (simp add: ping_world_def silent_world_def)
  have p1: "ping_discovery ping_world ''10.0.0.5'' = Inr [pinged_device]"
    by code_simp
  have n2: "nmap_scan no_reply_world ''10.0.0.0/30'' (''-sn -n '' @ ''10.0.0.0/30'') = Inl PortScannerError"
    by (simp add: no_reply_world_def silent_world_def)
  have h2: "ip_network_hosts no_reply_world ''10.0.0.0/30'' = Inr [''10.0.0.1'', ''10.0.0.2'']
     \<and> (\<forall>ip\<in>set [''10.0.0.1'', ''10.0.0.2'']. \<forall>output.
           subprocess_exec no_reply_world (ping_command no_reply_world ip) \<noteq> Inr (0, output))"
    by (simp add: no_reply_world_def silent_world_def)
  show ?thesis
    using discover_devices_fallback [OF n1, THEN conjunct1] p1
      discover_devices_fallback [OF n2, THEN conjunct2, THEN spec, THEN mp, OF h2]
    by simp
qed

subsection \<open>The per-host scans\<close>

lemma scan_each_results:
  "scan_each scan devices acc = Inr rs \<Longrightarrow>
     \<exists>new. rs = acc @ new \<and> list_all2 (\<lambda>d r. scan d = Inr r) devices new"
proof (induction devices arbitrary: acc)
  case Nil
  then show ?case by simp
next
  case (Cons d devices)
  from Cons.prems obtain r where r: "scan d = Inr r"
    and rest: "scan_each scan devices (acc @ [r]) = Inr rs"
    by (auto split: sum.splits)
  from Cons.IH [OF rest] obtain new where
    "rs = (acc @ [r]) @ new" "list_all2 (\<lambda>d r. scan d = Inr r) devices new"
    by blast
  then have "rs = acc @ (r # new)" "list_all2 (\<lambda>d r. scan d = Inr r) (d # devices) (r # new)"
    using r by simp_all
  then show ?case by blast
qed

lemma scan_each_total:
  "\<forall>d\<in>set devices. \<exists>r. scan d = Inr r \<Longrightarrow> \<exists>rs. scan_each scan devices acc = Inr rs"
  by (induction devices arbitrary: acc) auto

lemma scan_each_raises:
  "d \<in> set devices \<Longrightarrow> scan d = Inl e \<Longrightarrow> \<exists>e'. scan_each scan devices acc = Inl e'"
  by (induction devices arbitrary: acc) (auto split: sum.splits)

lemma discovery_scan_eq:
  "discovery_scan w d =
     Inr ((new_result d ''discovery'')\<lparr>
       manufacturer :=
         (case dev_mac d of
            None \<Rightarrow> None
          | Some mac \<Rightarrow>
              if mac \<noteq> [] then (case get_manufacturer w mac of Inl e \<Rightarrow> None | Inr m \<Rightarrow> m)
              else None),
       device_type :=
         (case quick_classify w d of Inl e \<Rightarrow> Some ''unknown'' | Inr t \<Rightarrow> Some t),
       open_ports := quick_port_check w (dev_ip d) discovery_common_ports\<rparr>)"
  unfolding discovery_scan_def quick_port_scan_def discovery_common_ports_def [symmetric]
    quick_port_check_def [symmetric]
  by (simp add: Let_def new_result_def split: option.splits sum.splits)

lemma discovery_scan_fields:
  assumes "discovery_scan w d = Inr r"
  shows "hostname r = None" and "scan_mode r = ''discovery''" and "ip_address r = dev_ip d"
    and "open_ports r = quick_port_check w (dev_ip d) discovery_common_ports"
    and "device_type r = (case quick_classify w d of Inl e \<Rightarrow> Some ''unknown'' | Inr t \<Rightarrow> Some t)"
  using assms unfolding discovery_scan_eq by (auto simp: new_result_def)

lemma detailed_local_scan_fields:
  assumes "detailed_local_scan w cfg d = Inr r"
  shows "hostname r = None" and "scan_mode r = ''local_detailed''" and "ip_address r = dev_ip d"
    and "open_ports r = map fst (scan_services w cfg (dev_ip d))"
  using assms
  by (auto simp: detailed_local_scan_def new_result_def Let_def
      split: option.splits sum.splits if_splits)

lemma score_loop_no_hostname:
  "pats \<noteq> [] \<Longrightarrow> dev_hostname d = None \<Longrightarrow>
     score_loop pats ports svcs d acc = Inl AttributeError"
  by (cases pats) (auto simp: hostname_lower_def)

lemma classify_device_no_hostname:
  "dev_hostname d = None \<Longrightarrow> classify_device w d = Inl AttributeError"
proof -
  assume h: "dev_hostname d = None"
  have "device_patterns \<noteq> []" by (simp add: device_patterns_def)
  then show ?thesis
    using score_loop_no_hostname [OF _ h] by (simp add: classify_device_def)
qed

lemma detailed_local_scan_no_hostname:
  "dev_hostname d = None \<Longrightarrow> \<exists>e. detailed_local_scan w cfg d = Inl e"
  using classify_device_no_hostname [of d w]
  by (auto simp: detailed_local_scan_def Let_def split: option.splits sum.splits)


lemma scan_network_results:
  assumes "scan_network w cfg target mode detailed = Inr rs"
  shows "\<exists>devices. discover_devices w target = Inr devices
     \<and> list_all2 (\<lambda>d r. (if mode = ''local'' \<and> detailed then detailed_local_scan w cfg d
                           else discovery_scan w d) = Inr r) devices rs"
proof -
  from assms obtain devices where d: "discover_devices w target = Inr devices"
    by (auto simp: scan_network_def split: sum.splits)
  let ?scan = "\<lambda>d. if mode = ''local'' \<and> detailed then detailed_local_scan w cfg d
                    else discovery_scan w d"
  have "scan_each ?scan devices [] = Inr rs"
    using assms d by (auto simp: scan_network_def split: if_splits cong: if_cong)
  from scan_each_results [OF this] have "list_all2 (\<lambda>d r. ?scan d = Inr r) devices rs"
    by simp
  then show ?thesis using d by blast
qed

lemma scan_network_result:
  assumes "scan_network w cfg target mode detailed = Inr rs" and "r \<in> set rs"
  shows "\<exists>d. (if mode = ''local'' \<and> detailed then detailed_local_scan w cfg d
               else discovery_scan w d) = Inr r"
proof -
  from scan_network_results [OF assms(1)] obtain devices where
    l: "list_all2 (\<lambda>d r. (if mode = ''local'' \<and> detailed then detailed_local_scan w cfg d
                           else discovery_scan w d) = Inr r) devices rs"
    by blast
  from assms(2) obtain i where i: "i < length rs" "rs ! i = r" by (auto simp: in_set_conv_nth)
  from list_all2_nthD2 [OF l i(1)]
  have "(if mode = ''local'' \<and> detailed then detailed_local_scan w cfg (devices ! i)
         else discovery_scan w (devices ! i)) = Inr r"
    using i(2) by simp
  then show ?thesis by (rule exI)
qed

subsection \<open>Service scans\<close>

lemma store_services_distinct:
  "distinct (map fst acc) \<Longrightarrow> distinct (map fst (store_services results acc))"
proof (induction results arbitrary: acc)
  case Nil
  then show ?case by simp
next
  case (Cons a results)
  show ?case
  proof (cases a)
    case None
    then show ?thesis using Cons by simp
  next
    case (Some ps)
    obtain port service where "ps = (port, service)" by (cases ps)
    then show ?thesis
      using Cons.IH [of "AList.update port service acc"] Cons.prems Some
      by (simp add: AList.distinct_update)
  qed
qed

lemma store_services_keys:
  "fst ` set (store_services results acc) \<subseteq> fst ` set acc \<union> {port. \<exists>service. Some (port, service) \<in> set results}"
proof (induction results arbitrary: acc)
  case Nil
  then show ?case by simp
next
  case (Cons a results)
  show ?case
  proof (cases a)
    case None
    then show ?thesis using Cons.IH [of acc] by auto
  next
    case (Some ps)
    obtain port service where ps: "ps = (port, service)" by (cases ps)
    have "fst ` set (AList.update port service acc) = {port} \<union> fst ` set acc"
      by (rule AList.dom_update)
    then show ?thesis
      using Cons.IH [of "AList.update port service acc"] Some ps by auto
  qed
qed

lemma host_services_ports: "fst ` set (host_services h) = set (host_ports h)"
  by (force simp: host_services_def host_ports_def)

lemma basic_check_port_port:
  "basic_check_port w cfg ip p = Some (port, service) \<Longrightarrow> port = p"
  by (auto simp: basic_check_port_def split: conn.splits)

lemma scan_services_distinct: "distinct (map fst (scan_services w cfg ip))"
  by (auto simp: scan_services_def basic_port_scan_def store_services_distinct
      split: sum.splits option.splits)

lemma scan_services_ports:
  "set (map fst (scan_services w cfg ip)) \<subseteq> service_scan_ports w ip"
proof (cases "nmap_scan w ip (''-sS -sV -O --version-intensity 5 -p- '' @ ip)")
  case (Inl e)
  have k: "port \<in> set ps"
    if "Some (port, service) \<in> set (map (basic_check_port w cfg ip) ps)" for port service ps
  proof -
    from that obtain p where "p \<in> set ps" "basic_check_port w cfg ip p = Some (port, service)"
      by (auto simp: image_iff)
    then show ?thesis using basic_check_port_port by blast
  qed
  have "fst ` set (basic_port_scan w cfg ip) \<subseteq> set (map fst common_services)"
  proof
    fix port
    assume "port \<in> fst ` set (basic_port_scan w cfg ip)"
    then have "port \<in> {port. \<exists>service. Some (port, service)
        \<in> set (map (basic_check_port w cfg ip) (map fst common_services))}"
      unfolding basic_port_scan_def
      using store_services_keys [of "map (basic_check_port w cfg ip) (map fst common_services)" "[]"]
      by auto
    then show "port \<in> set (map fst common_services)" using k by blast
  qed
  then show ?thesis using Inl by (simp add: scan_services_def service_scan_ports_def)
next
  case (Inr res)
  show ?thesis
  proof (cases "map_of res ip")
    case None
    then show ?thesis using Inr by (simp add: scan_services_def service_scan_ports_def)
  next
    case (Some h)
    have "fst ` set (store_services (map Some (host_services h)) []) \<subseteq> fst ` set (host_services h)"
      using store_services_keys [of "map Some (host_services h)" "[]"] by force
    then show ?thesis
      using Inr Some by (simp add: scan_services_def service_scan_ports_def host_services_ports)
  qed
qed

lemma discovery_common_ports_configured:
  "distinct discovery_common_ports"
  "set discovery_common_ports \<subseteq> set (quick_scan_ports default_config)"
  by (simp_all add: discovery_common_ports_def default_config_def)

subsection \<open>scan_network\<close>

lemma db_world_discovered:
  "discover_devices db_world ''10.0.0.5'' = Inr [db_device]"
  by code_simp

lemma db_world_detailed:
  "scan_network db_world default_config ''10.0.0.5'' ''local'' True = Inr [db_detailed_result]"
  by code_simp

lemma db_world_discovery:
  "scan_network db_world default_config ''10.0.0.5'' ''discovery'' False = Inr [db_discovery_result]"
  by code_simp

lemma db_world_local_not_detailed:
  "scan_network db_world default_config ''10.0.0.5'' ''local'' False = Inr [db_discovery_result]"
  by code_simp

text \<open>
  Claim C4, as amended. In every result of \<^verbatim>\<open>scan_network\<close> the list \<^verbatim>\<open>open_ports\<close> has
  no duplicate. In a discovery scan every port of it is one of the fifteen ports that
  \<^verbatim>\<open>_discovery_scan\<close> probes, all of which are in the default \<^verbatim>\<open>quick_scan_ports\<close>.
  In a detailed local scan every port of it is a port of the service scan of that host:
  one reported by the all-ports nmap scan or, when that scan raises, one of the sixteen
  ports of the fallback table; \<^verbatim>\<open>detailed_scan_ports\<close> does not bound it.
\<close>

theorem scan_network_open_ports:
  assumes "scan_network w cfg target mode detailed = Inr rs" and "r \<in> set rs"
  shows "distinct (open_ports r)
     \<and> (if mode = ''local'' \<and> detailed
        then set (open_ports r) \<subseteq> service_scan_ports w (ip_address r)
        else set (open_ports r) \<subseteq> set discovery_common_ports
           \<and> set (open_ports r) \<subseteq> set (quick_scan_ports default_config))"
proof (cases "mode = ''local'' \<and> detailed")
  case True
  with scan_network_result [OF assms] obtain d where "detailed_local_scan w cfg d = Inr r"
    by auto
  from detailed_local_scan_fields(3,4) [OF this] show ?thesis
    using True scan_services_distinct [of w cfg "dev_ip d"] scan_services_ports [of w cfg "dev_ip d"]
    by simp
next
  case False
  with scan_network_result [OF assms] obtain d where "discovery_scan w d = Inr r"
    by auto
  from discovery_scan_fields(4) [OF this]
  have "open_ports r = filter (\<lambda>port. open_connection w (dev_ip d) port 2 = Connected \<and> port \<noteq> 0)
          discovery_common_ports"
    by (simp only: quick_port_check_filter)
  then have "distinct (open_ports r)" "set (open_ports r) \<subseteq> set discovery_common_ports"
    using discovery_common_ports_configured(1) by auto
  then show ?thesis using False discovery_common_ports_configured(2) by auto
qed

theorem scan_network_open_ports_witness:
  "scan_network db_world default_config ''10.0.0.5'' ''local'' True = Inr [db_detailed_result]
   \<and> scan_network db_world default_config ''10.0.0.5'' ''discovery'' False = Inr [db_discovery_result]
   \<and> distinct (open_ports db_detailed_result)
   \<and> set (open_ports db_detailed_result) \<subseteq> service_scan_ports db_world (ip_address db_detailed_result)
   \<and> distinct (open_ports db_discovery_result)
   \<and> set (open_ports db_discovery_result) \<subseteq> set (quick_scan_ports default_config)"
proof -
  note a = db_world_detailed
  note b = db_world_discovery
  show ?thesis
    using a b scan_network_open_ports [OF a, of db_detailed_result]
      scan_network_open_ports [OF b, of db_discovery_result]
    by simp
qed

text \<open>
  Claim C4 as stated fails: a detailed local scan of a host whose port 3306 is open
  reports port 3306, which is not in \<^verbatim>\<open>detailed_scan_ports\<close> (1 to 1024).
\<close>

theorem detailed_open_ports_outside_configured_set:
  "map_sum id (map open_ports) (scan_network db_world default_config ''10.0.0.5'' ''local'' True)
     = Inr [[3306]]
   \<and> 3306 \<notin> set (detailed_scan_ports default_config)"
  by code_simp

text \<open>
  Claim C2 at a failing input: nmap is unavailable, the ping sweep finds the host
  10.0.0.5 (its hostname is \<^verbatim>\<open>None\<close>, as for every host of the ping sweep), and the
  detailed local scan raises \<^verbatim>\<open>AttributeError\<close> out of \<^verbatim>\<open>scan_network\<close>: no result is
  returned for any host.
\<close>

theorem scan_network_detailed_aborts_without_hostname:
  "discover_devices ping_world ''10.0.0.5'' = Inr [pinged_device]
   \<and> dev_hostname pinged_device = None
   \<and> scan_network ping_world default_config ''10.0.0.5'' ''local'' True = Inl AttributeError"
  by code_simp

text \<open>The same for every network: one discovered host without hostname aborts a detailed scan,
  while a discovery scan always returns one result for each host.\<close>

lemma scan_network_detailed_raises:
  assumes "discover_devices w target = Inr devices" and "d \<in> set devices"
    and "dev_hostname d = None"
  shows "\<exists>e. scan_network w cfg target ''local'' True = Inl e"
proof -
  from detailed_local_scan_no_hostname [OF assms(3)] obtain e where
    "detailed_local_scan w cfg d = Inl e" by blast
  from scan_each_raises [where scan = "detailed_local_scan w cfg" and acc = "[]", OF assms(2) this]
  show ?thesis
    using assms(1) by (simp add: scan_network_def)
qed

lemma scan_network_discovery_total:
  assumes "discover_devices w target = Inr devices" and "\<not> (mode = ''local'' \<and> detailed)"
  shows "\<exists>rs. scan_network w cfg target mode detailed = Inr rs \<and> length rs = length devices"
proof -
  have "\<forall>d\<in>set devices. \<exists>r. discovery_scan w d = Inr r"
    by (simp add: discovery_scan_eq)
  from scan_each_total [OF this, of "[]"] obtain rs where
    rs: "scan_each (discovery_scan w) devices [] = Inr rs" by blast
  from scan_each_results [OF rs] have "length rs = length devices"
    by (auto dest: list_all2_lengthD)
  then show ?thesis using rs assms by (auto simp: scan_network_def)
qed

text \<open>
  Claim C9. Unless the mode is \<^verbatim>\<open>'local'\<close> and \<^verbatim>\<open>detailed\<close> is true, \<^verbatim>\<open>scan_network\<close>
  does what it does in discovery mode; in particular mode \<^verbatim>\<open>'local'\<close> without
  \<^verbatim>\<open>detailed\<close> gives the outcome of mode \<^verbatim>\<open>'discovery'\<close>. Each of its results is then
  the discovery scan of a discovered host (quick classification, scan of the fixed common
  ports) and has scan mode \<^verbatim>\<open>'discovery'\<close>. A result has scan mode \<^verbatim>\<open>'local_detailed'\<close>
  exactly when the mode is \<^verbatim>\<open>'local'\<close> and \<^verbatim>\<open>detailed\<close> is true.
\<close>

theorem scan_network_mode_selection:
  "(\<not> (mode = ''local'' \<and> detailed) \<longrightarrow>
      scan_network w cfg target mode detailed = scan_network w cfg target ''discovery'' False)
   \<and> scan_network w cfg target ''local'' False = scan_network w cfg target ''discovery'' detailed
   \<and> (\<forall>rs. scan_network w cfg target ''local'' False = Inr rs \<longrightarrow>
        (\<exists>devices. discover_devices w target = Inr devices
           \<and> list_all2 (\<lambda>d r. discovery_scan w d = Inr r
                \<and> device_type r =
                    (case quick_classify w d of Inl e \<Rightarrow> Some ''unknown'' | Inr t \<Rightarrow> Some t)
                \<and> quick_port_scan w (dev_ip d) discovery_common_ports = Inr (open_ports r)
                \<and> scan_mode r = ''discovery'') devices rs))
   \<and> (\<forall>rs. scan_network w cfg target mode detailed = Inr rs \<longrightarrow>
        (\<forall>r\<in>set rs. (scan_mode r = ''local_detailed'') = (mode = ''local'' \<and> detailed)))"
proof (intro conjI allI impI ballI)
  show "scan_network w cfg target mode detailed = scan_network w cfg target ''discovery'' False"
    if "\<not> (mode = ''local'' \<and> detailed)"
    using that by (auto simp: scan_network_def split: sum.splits)
  show "scan_network w cfg target ''local'' False = scan_network w cfg target ''discovery'' detailed"
    by (simp add: scan_network_def split: sum.splits)
next
  fix rs
  assume a: "scan_network w cfg target ''local'' False = Inr rs"
  from scan_network_results [OF a] obtain devices where
    d: "discover_devices w target = Inr devices" and
    l: "list_all2 (\<lambda>d r. discovery_scan w d = Inr r) devices rs"
    by auto
  have "list_all2 (\<lambda>d r. discovery_scan w d = Inr r
                \<and> device_type r =
                    (case quick_classify w d of Inl e \<Rightarrow> Some ''unknown'' | Inr t \<Rightarrow> Some t)
                \<and> quick_port_scan w (dev_ip d) discovery_common_ports = Inr (open_ports r)
                \<and> scan_mode r = ''discovery'') devices rs"
    using l
  proof (rule list_all2_mono)
    fix d r
    assume s: "discovery_scan w d = Inr r"
    show "discovery_scan w d = Inr r
                \<and> device_type r =
                    (case quick_classify w d of Inl e \<Rightarrow> Some ''unknown'' | Inr t \<Rightarrow> Some t)
                \<and> quick_port_scan w (dev_ip d) discovery_common_ports = Inr (open_ports r)
                \<and> scan_mode r = ''discovery''"
      using s discovery_scan_fields(2,4,5) [OF s]
      by (simp add: quick_port_scan_def quick_port_check_def)
  qed
  then show "\<exists>devices. discover_devices w target = Inr devices
           \<and> list_all2 (\<lambda>d r. discovery_scan w d = Inr r
                \<and> device_type r =
                    (case quick_classify w d of Inl e \<Rightarrow> Some ''unknown'' | Inr t \<Rightarrow> Some t)
                \<and> quick_port_scan w (dev_ip d) discovery_common_ports = Inr (open_ports r)
                \<and> scan_mode r = ''discovery'') devices rs"
    using d by blast
next
  fix rs r
  assume a: "scan_network w cfg target mode detailed = Inr rs" and r: "r \<in> set rs"
  from scan_network_result [OF a r] obtain d where
    s: "(if mode = ''local'' \<and> detailed then detailed_local_scan w cfg d
         else discovery_scan w d) = Inr r"
    by blast
  show "(scan_mode r = ''local_detailed'') = (mode = ''local'' \<and> detailed)"
  proof (cases "mode = ''local'' \<and> detailed")
    case True
    from s have "detailed_local_scan w cfg d = Inr r" by (simp only: if_P [OF True])
    from detailed_local_scan_fields(2) [OF this] show ?thesis using True by blast
  next
    case False
    from s have "discovery_scan w d = Inr r" by (simp only: if_not_P [OF False])
    from discovery_scan_fields(2) [OF this] have "scan_mode r \<noteq> ''local_detailed''" by simp
    then show ?thesis using False by blast
  qed
qed

theorem scan_network_mode_selection_witness:
  "scan_network db_world default_config ''10.0.0.5'' ''local'' False = Inr [db_discovery_result]
   \<and> scan_network db_world default_config ''10.0.0.5'' ''discovery'' True = Inr [db_discovery_result]
   \<and> scan_mode db_discovery_result = ''discovery''
   \<and> scan_network db_world default_config ''10.0.0.5'' ''local'' True = Inr [db_detailed_result]
   \<and> scan_mode db_detailed_result = ''local_detailed''"
proof -
  note a = db_world_local_not_detailed
  note b = db_world_detailed
  have m: "db_discovery_result \<in> set [db_discovery_result]" "db_detailed_result \<in> set [db_detailed_result]"
    by simp_all
  note sel = scan_network_mode_selection [THEN conjunct2, THEN conjunct2, THEN conjunct2,
      THEN spec, THEN mp]
  show ?thesis
    using a b
      scan_network_mode_selection [where w = db_world and cfg = default_config
        and target = "''10.0.0.5''" and detailed = True, THEN conjunct2, THEN conjunct1]
      bspec [OF sel [OF a] m(1)] bspec [OF sel [OF b] m(2)]
    by (simp add: db_discovery_result_def)
qed

text \<open>
  Claim C10. In every result of \<^verbatim>\<open>scan_network\<close>, in both modes, the field
  \<^verbatim>\<open>hostname\<close> is \<^verbatim>\<open>None\<close>, also for a host whose name discovery resolved.
\<close>

theorem scan_result_hostname_unset:
  assumes "scan_network w cfg target mode detailed = Inr rs" and "r \<in> set rs"
  shows "hostname r = None"
proof -
  from scan_network_result [OF assms] obtain d where
    s: "(if mode = ''local'' \<and> detailed then detailed_local_scan w cfg d
         else discovery_scan w d) = Inr r"
    by blast
  show ?thesis
  proof (cases "mode = ''local'' \<and> detailed")
    case True
    from s have "detailed_local_scan w cfg d = Inr r" by (simp only: if_P [OF True])
    then show ?thesis by (rule detailed_local_scan_fields(1))
  next
    case False
    from s have "discovery_scan w d = Inr r" by (simp only: if_not_P [OF False])
    then show ?thesis by (rule discovery_scan_fields(1))
  qed
qed

theorem scan_result_hostname_unset_witness:
  "discover_devices db_world ''10.0.0.5'' = Inr [db_device]
   \<and> dev_hostname db_device = Some ''db.lan''
   \<and> scan_network db_world default_config ''10.0.0.5'' ''local'' True = Inr [db_detailed_result]
   \<and> hostname db_detailed_result = None
   \<and> scan_network db_world default_config ''10.0.0.5'' ''discovery'' False = Inr [db_discovery_result]
   \<and> hostname db_discovery_result = None"
proof -
  have d: "discover_devices db_world ''10.0.0.5'' = Inr [db_device]
     \<and> dev_hostname db_device = Some ''db.lan''"
    using db_world_discovered by (simp add: db_device_def)
  note a = db_world_detailed
  note b = db_world_discovery
  show ?thesis
    using d a b scan_result_hostname_unset [OF a, of db_detailed_result]
      scan_result_hostname_unset [OF b, of db_discovery_result]
    by simp
qed

end
